theory Spec2Isabelle
  imports Complex_Main "HOL-Library.Word"
begin

section \<open>Gravity simulation and vector field of \<open>first_app.cpp\<close>\<close>

text \<open>
  The embedding follows \<open>GravityPhysicsSystem\<close> and \<open>Vec2FieldSystem\<close> of
  \<open>src/first_app.cpp\<close>. The C++ type \<open>float\<close> is idealised as \<open>real\<close>: every
  arithmetic operation is the exact one, there is no rounding, no infinity and no NaN,
  and the literals \<open>1e-10f\<close>, \<open>0.005f\<close>, \<open>0.045f\<close> are the decimal numbers they
  spell. Division by zero is \<open>0\<close> in HOL where the program would produce an infinity or
  a NaN; \<open>computeForce\<close> never divides by zero (its guard excludes it), and the
  statements about the integration step that depend on the value of a division by a mass
  carry the hypothesis that the mass is positive. Most properties below restate the
  expressions, branches and order of the program and do not depend on the rounding. The
  two that compare the results of different computations do: for them the force law is
  given a second time, in binary32 arithmetic, each operation rounded as the machine
  rounds it.
\<close>

subsection \<open>The vectors of glm\<close>

text \<open>
  \<open>glm::vec2\<close> and \<open>glm::vec3\<close> with the operators the program uses. The components
  \<open>.x\<close> and \<open>.y\<close> are the selectors \<open>vx\<close> and \<open>vy\<close>. glm is a library outside
  the repository; its operations are componentwise, \<open>glm::dot\<close> is the sum of the
  products, \<open>glm::length\<close> the root of \<open>dot v v\<close>, and \<open>glm::clamp x lo hi\<close> is
  \<open>min (max x lo) hi\<close>.
\<close>

datatype vec2 = Vec2 (vx: real) (vy: real)

datatype vec3 = Vec3 real real real

definition vadd :: "vec2 \<Rightarrow> vec2 \<Rightarrow> vec2" where
  "vadd a b = Vec2 (vx a + vx b) (vy a + vy b)"

definition vsub :: "vec2 \<Rightarrow> vec2 \<Rightarrow> vec2" where
  "vsub a b = Vec2 (vx a - vx b) (vy a - vy b)"

definition vneg :: "vec2 \<Rightarrow> vec2" where
  "vneg a = Vec2 (- vx a) (- vy a)"

definition smul :: "real \<Rightarrow> vec2 \<Rightarrow> vec2" where
  "smul s a = Vec2 (s * vx a) (s * vy a)"

definition vdiv :: "vec2 \<Rightarrow> real \<Rightarrow> vec2" where
  "vdiv a s = Vec2 (vx a / s) (vy a / s)"

definition dot :: "vec2 \<Rightarrow> vec2 \<Rightarrow> real" where
  "dot a b = vx a * vx b + vy a * vy b"

definition length_vec2 :: "vec2 \<Rightarrow> real" where
  "length_vec2 v = sqrt (dot v v)"

definition clamp :: "real \<Rightarrow> real \<Rightarrow> real \<Rightarrow> real" where
  "clamp v minVal maxVal = min (max v minVal) maxVal"

text \<open>
  \<open>atan2 y x\<close> of the C library, on real arguments: the angle of the point \<open>(x, y)\<close>
  in \<open>(-\<pi>, \<pi>]\<close>, and \<open>0\<close> at the origin (the value of \<open>atan2(+0, +0)\<close>).
\<close>

definition atan2 :: "real \<Rightarrow> real \<Rightarrow> real" where
  "atan2 b a =
     (if 0 < a then arctan (b / a)
      else if a < 0 then (if 0 \<le> b then arctan (b / a) + pi else arctan (b / a) - pi)
      else if 0 < b then pi / 2
      else if b < 0 then - (pi / 2)
      else 0)"

subsection \<open>Game objects\<close>

text \<open>
  The header \<open>sve_game_object.hpp\<close>, which declares \<open>SveGameObject\<close> and its two
  components, is not among the sources. The three records have the fields that
  \<open>first_app.cpp\<close> reads and writes, under the names it uses, with the types the
  specification gives to a body.
\<close>

text \<open>
  Modelled from the spec: the declaration of \<open>Transform2dComponent\<close> is missing. The
  transform of a body: its translation, which is its position, its scale and its
  rotation in radians.
\<close>

record Transform2dComponent =
  translation :: vec2
  scale :: vec2
  rotation :: real

text \<open>
  Modelled from the spec: the declaration of \<open>RigidBody2dComponent\<close> is missing. The
  velocity and the mass of a body.
\<close>

record RigidBody2dComponent =
  velocity :: vec2
  mass :: real

text \<open>
  Modelled from the spec: the declaration of \<open>SveGameObject\<close> is missing. A body or a
  sample point: the two components, the color and the handle of the mesh, which the
  physics never reads.
\<close>

record SveGameObject =
  model :: nat
  color :: vec3
  transform2d :: Transform2dComponent
  rigidBody2d :: RigidBody2dComponent

subsection \<open>\<open>GravityPhysicsSystem\<close>\<close>

record GravityPhysicsSystem =
  strengthGravity :: real

definition computeForce ::
  "GravityPhysicsSystem \<Rightarrow> SveGameObject \<Rightarrow> SveGameObject \<Rightarrow> vec2" where
  "computeForce this fromObj toObj =
     (let offset = vsub (translation (transform2d fromObj)) (translation (transform2d toObj));
          distanceSquared = dot offset offset
      in if \<bar>distanceSquared\<bar> < 1 / 10 ^ 10 then Vec2 0 0
         else
           let force = strengthGravity this * mass (rigidBody2d toObj)
                         * mass (rigidBody2d fromObj) / distanceSquared
           in vdiv (smul force offset) (sqrt distanceSquared))"

text \<open>
  The divisors of the divisions a call of \<open>computeForce\<close> executes, in the order of
  execution: none before the early return, \<open>distanceSquared\<close> and its root after it.
\<close>

definition computeForce_divisors ::
  "GravityPhysicsSystem \<Rightarrow> SveGameObject \<Rightarrow> SveGameObject \<Rightarrow> real list" where
  "computeForce_divisors this fromObj toObj =
     (let offset = vsub (translation (transform2d fromObj)) (translation (transform2d toObj));
          distanceSquared = dot offset offset
      in if \<bar>distanceSquared\<bar> < 1 / 10 ^ 10 then []
         else [distanceSquared, sqrt distanceSquared])"

text \<open>
  The body of the inner loop of \<open>stepSimulation\<close> for the elements at the indices
  \<open>a\<close> and \<open>b\<close> of the vector. \<open>objA\<close> and \<open>objB\<close> are references into the
  vector: the second assignment reads \<open>objB\<close> from the vector as the first one left it.
\<close>

definition pairBody ::
  "GravityPhysicsSystem \<Rightarrow> real \<Rightarrow> nat \<Rightarrow> nat \<Rightarrow> SveGameObject list \<Rightarrow> SveGameObject list" where
  "pairBody this dt a b physicsObjs =
     (let force = computeForce this (physicsObjs ! a) (physicsObjs ! b);
          objA = physicsObjs ! a;
          objs1 = physicsObjs[a := objA\<lparr>rigidBody2d := (rigidBody2d objA)
                    \<lparr>velocity := vadd (velocity (rigidBody2d objA))
                                      (vdiv (smul dt (vneg force)) (mass (rigidBody2d objA)))\<rparr>\<rparr>];
          objB = objs1 ! b
      in objs1[b := objB\<lparr>rigidBody2d := (rigidBody2d objB)
                    \<lparr>velocity := vadd (velocity (rigidBody2d objB))
                                      (vdiv (smul dt force) (mass (rigidBody2d objB)))\<rparr>\<rparr>])"

text \<open>
  The loop of \<open>iterB\<close>, from \<open>iterA\<close> to the end, which skips \<open>iterA\<close> itself.
  The body never changes the number of elements, so the end of the vector is the one at
  the entry of the loop.
\<close>

definition loopB ::
  "GravityPhysicsSystem \<Rightarrow> real \<Rightarrow> nat \<Rightarrow> SveGameObject list \<Rightarrow> SveGameObject list" where
  "loopB this dt a physicsObjs =
     fold (\<lambda>b objs. if a = b then objs else pairBody this dt a b objs)
       [a..<length physicsObjs] physicsObjs"

text \<open>The loop of \<open>iterA\<close> over the whole vector.\<close>

definition loopA ::
  "GravityPhysicsSystem \<Rightarrow> real \<Rightarrow> SveGameObject list \<Rightarrow> SveGameObject list" where
  "loopA this dt physicsObjs =
     fold (\<lambda>a objs. loopB this dt a objs) [0..<length physicsObjs] physicsObjs"

text \<open>The second loop: every object moves by \<open>dt\<close> times its velocity.\<close>

definition movePositions :: "real \<Rightarrow> SveGameObject list \<Rightarrow> SveGameObject list" where
  "movePositions dt physicsObjs =
     map (\<lambda>obj. obj\<lparr>transform2d := (transform2d obj)
            \<lparr>translation := vadd (translation (transform2d obj))
                                 (smul dt (velocity (rigidBody2d obj)))\<rparr>\<rparr>) physicsObjs"

definition stepSimulation ::
  "GravityPhysicsSystem \<Rightarrow> SveGameObject list \<Rightarrow> real \<Rightarrow> SveGameObject list" where
  "stepSimulation this physicsObjs dt = movePositions dt (loopA this dt physicsObjs)"

text \<open>
  The loop of \<open>update\<close>. Its counter \<open>i\<close> is an \<open>int\<close> that the comparison with the
  \<open>unsigned int substeps\<close> converts to unsigned: it is a 32-bit word compared as an
  unsigned number. Up to \<open>substeps = 2^31 - 1\<close> the counter does not overflow; beyond,
  the model increments it as the two's complement machine does.
\<close>

function update_loop ::
  "GravityPhysicsSystem \<Rightarrow> real \<Rightarrow> 32 word \<Rightarrow> 32 word \<Rightarrow> SveGameObject list
     \<Rightarrow> SveGameObject list" where
  "update_loop this stepDelta substeps i objs =
     (if i < substeps
      then update_loop this stepDelta substeps (i + 1) (stepSimulation this objs stepDelta)
      else objs)"
  by pat_completeness auto
termination
proof (relation "measure (\<lambda>(this, stepDelta, substeps, i, objs). unat substeps - unat i)")
  show "wf (measure (\<lambda>(this, stepDelta, substeps, i, objs). unat substeps - unat i))"
    by simp
next
  fix this :: GravityPhysicsSystem and stepDelta :: real and substeps i :: "32 word"
    and objs :: "SveGameObject list"
  assume less: "i < substeps"
  have "unat i < unat substeps"
    using less by (simp add: word_less_nat_alt)
  moreover have "unat substeps < 2 ^ 32"
    using unsigned_less [of substeps] by simp
  ultimately have "unat i + unat (1 :: 32 word) < 2 ^ LENGTH(32)"
    by simp
  then have "unat (i + 1) = unat i + unat (1 :: 32 word)"
    by (simp only: unat_add_lem)
  then show "((this, stepDelta, substeps, i + 1, stepSimulation this objs stepDelta),
              (this, stepDelta, substeps, i, objs))
             \<in> measure (\<lambda>(this, stepDelta, substeps, i, objs). unat substeps - unat i)"
    using \<open>unat i < unat substeps\<close> by simp
qed

declare update_loop.simps [simp del]

definition update ::
  "GravityPhysicsSystem \<Rightarrow> SveGameObject list \<Rightarrow> real \<Rightarrow> 32 word \<Rightarrow> SveGameObject list" where
  "update this objs dt substeps =
     (let stepDelta = dt / real (unat substeps)
      in update_loop this stepDelta substeps 0 objs)"

subsection \<open>The two vectors of the host\<close>

text \<open>
  Both \<open>update\<close> methods receive their vectors by reference. A heap maps the address of
  a vector to its contents, so that a call can be given the same vector twice and the
  objects a call leaves alone are those at the addresses it does not write.
\<close>

type_synonym vector_ref = nat

type_synonym heap = "vector_ref \<Rightarrow> SveGameObject list"

definition GravityPhysicsSystem_update ::
  "GravityPhysicsSystem \<Rightarrow> vector_ref \<Rightarrow> real \<Rightarrow> 32 word \<Rightarrow> heap \<Rightarrow> heap" where
  "GravityPhysicsSystem_update this objs dt substeps h =
     h(objs := update this (h objs) dt substeps)"

subsection \<open>\<open>Vec2FieldSystem\<close>\<close>

text \<open>The inner loop: \<open>direction\<close> starts at zero and takes the force of every object.\<close>

definition fieldDirection ::
  "GravityPhysicsSystem \<Rightarrow> SveGameObject list \<Rightarrow> SveGameObject \<Rightarrow> vec2" where
  "fieldDirection physicsSystem physicsObjs vf =
     fold (\<lambda>obj direction. vadd direction (computeForce physicsSystem obj vf))
       physicsObjs (Vec2 0 0)"

text \<open>The two assignments to the field line \<open>vf\<close>.\<close>

definition setFieldLine :: "vec2 \<Rightarrow> SveGameObject \<Rightarrow> SveGameObject" where
  "setFieldLine direction vf =
     vf\<lparr>transform2d := (transform2d vf)
          \<lparr>scale := Vec2 (0.005 + 0.045 * clamp (ln (length_vec2 direction + 1) / 3) 0 1)
                          (vy (scale (transform2d vf))),
            rotation := atan2 (vy direction) (vx direction)\<rparr>\<rparr>"

text \<open>The body of the outer loop for the field line at index \<open>k\<close>.\<close>

definition fieldBody ::
  "GravityPhysicsSystem \<Rightarrow> vector_ref \<Rightarrow> vector_ref \<Rightarrow> nat \<Rightarrow> heap \<Rightarrow> heap" where
  "fieldBody physicsSystem physicsObjs vectorField k h =
     (let vf = h vectorField ! k;
          direction = fieldDirection physicsSystem (h physicsObjs) vf
      in h(vectorField := (h vectorField)[k := setFieldLine direction vf]))"

definition Vec2FieldSystem_update ::
  "GravityPhysicsSystem \<Rightarrow> vector_ref \<Rightarrow> vector_ref \<Rightarrow> heap \<Rightarrow> heap" where
  "Vec2FieldSystem_update physicsSystem physicsObjs vectorField h =
     fold (fieldBody physicsSystem physicsObjs vectorField)
       [0..<length (h vectorField)] h"

subsection \<open>The force law in binary32 arithmetic\<close>

text \<open>
  \<open>round_even q\<close> is the integer nearest to \<open>q\<close>, the even one of the two when
  \<open>q\<close> lies halfway between them.
\<close>

definition round_even :: "real \<Rightarrow> int" where
  "round_even q =
     (if q - of_int \<lfloor>q\<rfloor> < 1 / 2 then \<lfloor>q\<rfloor>
      else if 1 / 2 < q - of_int \<lfloor>q\<rfloor> then \<lfloor>q\<rfloor> + 1
      else if even \<lfloor>q\<rfloor> then \<lfloor>q\<rfloor> else \<lfloor>q\<rfloor> + 1)"

text \<open>
  \<open>binary32 x\<close> is the binary32 number nearest to \<open>x\<close>, ties to the even
  significand, as IEEE 754 rounds by default: 24 significant bits, and below \<open>2^-126\<close>
  the subnormal numbers with their fixed spacing of \<open>2^-149\<close>. The sign is taken out
  first, so rounding commutes with negation. There is no largest exponent here: where the
  machine would overflow to an infinity, \<open>binary32\<close> still rounds to 24 bits. A
  \<open>float\<close> operation of the source is the exact operation followed by \<open>binary32\<close>.
\<close>

definition binary32 :: "real \<Rightarrow> real" where
  "binary32 x =
     (if x = 0 then 0
      else
        let e = max \<lfloor>log 2 \<bar>x\<bar>\<rfloor> (- 126) - 23
        in sgn x * (of_int (round_even (\<bar>x\<bar> / 2 powr of_int e)) * 2 powr of_int e))"

text \<open>
  The operators of \<open>glm::vec2\<close> on \<open>float\<close> components: one rounding for each
  component of a difference, a product with a scalar or a quotient by a scalar;
  \<open>glm::dot\<close> rounds the two products and then their sum.
\<close>

definition vsub_binary32 :: "vec2 \<Rightarrow> vec2 \<Rightarrow> vec2" where
  "vsub_binary32 a b = Vec2 (binary32 (vx a - vx b)) (binary32 (vy a - vy b))"

definition smul_binary32 :: "real \<Rightarrow> vec2 \<Rightarrow> vec2" where
  "smul_binary32 s a = Vec2 (binary32 (s * vx a)) (binary32 (s * vy a))"

definition vdiv_binary32 :: "vec2 \<Rightarrow> real \<Rightarrow> vec2" where
  "vdiv_binary32 a s = Vec2 (binary32 (vx a / s)) (binary32 (vy a / s))"

definition dot_binary32 :: "vec2 \<Rightarrow> vec2 \<Rightarrow> real" where
  "dot_binary32 a b = binary32 (binary32 (vx a * vx b) + binary32 (vy a * vy b))"

text \<open>
  \<open>computeForce\<close> with every operation of the source rounded, in the order of the
  source: the product of the strength with the mass of \<open>toObj\<close> first, then the
  product with the mass of \<open>fromObj\<close>, then the quotient. The literal \<open>1e-10f\<close> is
  the rounded \<open>1e-10\<close> and \<open>glm::sqrt\<close> the rounded root. The positions, the masses
  and the strength are taken to be binary32 numbers.
\<close>

definition computeForce_binary32 ::
  "GravityPhysicsSystem \<Rightarrow> SveGameObject \<Rightarrow> SveGameObject \<Rightarrow> vec2" where
  "computeForce_binary32 this fromObj toObj =
     (let offset = vsub_binary32 (translation (transform2d fromObj))
                     (translation (transform2d toObj));
          distanceSquared = dot_binary32 offset offset
      in if \<bar>distanceSquared\<bar> < binary32 (1 / 10 ^ 10) then Vec2 0 0
         else
           let force = binary32 (binary32 (binary32 (strengthGravity this * mass (rigidBody2d toObj))
                         * mass (rigidBody2d fromObj)) / distanceSquared)
           in vdiv_binary32 (smul_binary32 force offset) (binary32 (sqrt distanceSquared)))"

subsection \<open>The pairs of the specification\<close>

text \<open>
  The specification speaks of every unordered pair of distinct bodies, visited once.
  \<open>unorderedPairs n\<close> lists the pairs of indices \<open>(a, b)\<close> with \<open>a < b < n\<close>, each
  unordered pair by its increasing representative, in the order of the two loops.
\<close>

definition unorderedPairs :: "nat \<Rightarrow> (nat \<times> nat) list" where
  "unorderedPairs n = concat (map (\<lambda>a. map (Pair a) [Suc a..<n]) [0..<n])"

text \<open>The total momentum of a sequence of bodies.\<close>

definition momentum :: "SveGameObject list \<Rightarrow> vec2" where
  "momentum objs =
     fold (\<lambda>obj p. vadd p (smul (mass (rigidBody2d obj)) (velocity (rigidBody2d obj))))
       objs (Vec2 0 0)"

subsection \<open>The scenario of the specification\<close>

text \<open>
  Two bodies of mass 1 at \<open>(1, 0)\<close> and \<open>(-1, 0)\<close>, at rest, and a field line at the
  origin; gravitational strength 1.
\<close>

definition unitGravity :: GravityPhysicsSystem where
  "unitGravity = \<lparr>strengthGravity = 1\<rparr>"

definition bodyAt :: "real \<Rightarrow> real \<Rightarrow> SveGameObject" where
  "bodyAt px py =
     \<lparr>model = 0, color = Vec3 1 1 1,
      transform2d = \<lparr>translation = Vec2 px py, scale = Vec2 (5 / 100) (5 / 100), rotation = 0\<rparr>,
      rigidBody2d = \<lparr>velocity = Vec2 0 0, mass = 1\<rparr>\<rparr>"

definition twoBodies :: "SveGameObject list" where
  "twoBodies = [bodyAt 1 0, bodyAt (- 1) 0]"

definition hostHeap :: heap where
  "hostHeap = (\<lambda>r. [])(0 := twoBodies, 1 := [bodyAt 0 0, bodyAt 0 1])"

text \<open>
  The strength \<open>0.81f\<close> that the host gives to its \<open>GravityPhysicsSystem\<close>, and a
  body at rest with a given mass.
\<close>

definition gravity081 :: GravityPhysicsSystem where
  "gravity081 = \<lparr>strengthGravity = binary32 (81 / 100)\<rparr>"

definition bodyOfMass :: "real \<Rightarrow> real \<Rightarrow> real \<Rightarrow> SveGameObject" where
  "bodyOfMass m px py = (bodyAt px py)\<lparr>rigidBody2d := \<lparr>velocity = Vec2 0 0, mass = m\<rparr>\<rparr>"

section \<open>Properties\<close>

subsection \<open>Vectors and the force law\<close>

lemma dot_self_nonneg: "0 \<le> dot v v"
  by (simp add: dot_def)

lemma length_vec2_scaled:
  assumes "0 < d" and "dot v v = d"
  shows "length_vec2 (vdiv (smul f v) (sqrt d)) = \<bar>f\<bar>"
proof -
  have "dot (vdiv (smul f v) (sqrt d)) (vdiv (smul f v) (sqrt d))
          = f * f * (vx v * vx v + vy v * vy v) / \<bar>d\<bar>"
    by (simp add: dot_def vdiv_def smul_def add_divide_distrib algebra_simps)
  also have "\<dots> = f * f * d / d"
    using assms by (simp add: dot_def)
  also have "\<dots> = f * f"
    using assms(1) by simp
  finally show ?thesis
    by (simp add: length_vec2_def)
qed



lemma computeForce_cong:
  assumes "translation (transform2d a') = translation (transform2d a)"
    and "translation (transform2d b') = translation (transform2d b)"
    and "mass (rigidBody2d a') = mass (rigidBody2d a)"
    and "mass (rigidBody2d b') = mass (rigidBody2d b)"
  shows "computeForce this a' b' = computeForce this a b"
  using assms by (simp add: computeForce_def Let_def)

subsection \<open>The loops of the integration step\<close>

lemma fold_invariant:
  assumes "P s" and "\<And>x s. x \<in> set xs \<Longrightarrow> P s \<Longrightarrow> P (f x s)"
  shows "P (fold f xs s)"
  using assms by (induction xs arbitrary: s) auto

lemma fold_cong_invariant:
  assumes "P s"
    and "\<And>x s. x \<in> set xs \<Longrightarrow> P s \<Longrightarrow> f x s = g x s"
    and "\<And>x s. x \<in> set xs \<Longrightarrow> P s \<Longrightarrow> P (g x s)"
  shows "fold f xs s = fold g xs s"
  using assms by (induction xs arbitrary: s) auto

lemma length_pairBody [simp]: "length (pairBody this dt a b objs) = length objs"
  by (simp add: pairBody_def Let_def)

lemma length_loopB [simp]: "length (loopB this dt a objs) = length objs"
  unfolding loopB_def
  by (rule fold_invariant [where P = "\<lambda>s. length s = length objs"]) auto

lemma length_loopA [simp]: "length (loopA this dt objs) = length objs"
  unfolding loopA_def
  by (rule fold_invariant [where P = "\<lambda>s. length s = length objs"]) auto

lemma length_movePositions [simp]: "length (movePositions dt objs) = length objs"
  by (simp add: movePositions_def)

lemma length_stepSimulation [simp]: "length (stepSimulation this objs dt) = length objs"
  by (simp add: stepSimulation_def)

lemma loopB_pairs:
  "loopB this dt a objs = fold (\<lambda>b. pairBody this dt a b) [Suc a..<length objs] objs"
proof (cases "a < length objs")
  case True
  have "fold (\<lambda>b s. if a = b then s else pairBody this dt a b s) [Suc a..<length objs] objs
        = fold (\<lambda>b. pairBody this dt a b) [Suc a..<length objs] objs"
    by (rule fold_cong) auto
  then show ?thesis
    using True by (simp add: loopB_def upt_conv_Cons)
next
  case False
  then show ?thesis by (simp add: loopB_def)
qed

lemma fold_pairs_rows:
  "fold (\<lambda>(a, b). f a b) (concat (map (\<lambda>a. map (Pair a) (row a)) as)) s
     = fold (\<lambda>a. fold (f a) (row a)) as s"
proof (induction as arbitrary: s)
  case Nil
  show ?case by simp
next
  case (Cons a as)
  have "fold (\<lambda>(a, b). f a b) (map (Pair a) bs) t = fold (f a) bs t" for bs t
    by (induction bs arbitrary: t) auto
  then show ?case
    using Cons.IH by simp
qed

lemma loopA_pairs:
  "loopA this dt objs
     = fold (\<lambda>(a, b). pairBody this dt a b) (unorderedPairs (length objs)) objs"
proof -
  let ?n = "length objs"
  let ?row = "\<lambda>a. fold (\<lambda>b. pairBody this dt a b) [Suc a..<?n]"
  have "loopA this dt objs = fold ?row [0..<?n] objs"
    unfolding loopA_def
  proof (rule fold_cong_invariant [where P = "\<lambda>s. length s = ?n"])
    show "length objs = ?n" by simp
  next
    fix a s assume "length (s :: SveGameObject list) = ?n"
    then show "loopB this dt a s = ?row a s"
      by (simp add: loopB_pairs)
  next
    fix a s assume "length (s :: SveGameObject list) = ?n"
    then show "length (?row a s) = ?n"
      by (intro fold_invariant [where P = "\<lambda>s. length s = ?n"]) auto
  qed
  also have "\<dots> = fold (\<lambda>(a, b). pairBody this dt a b) (unorderedPairs ?n) objs"
    by (simp add: unorderedPairs_def fold_pairs_rows)
  finally show ?thesis .
qed

lemma set_unorderedPairs: "set (unorderedPairs n) = {(a, b). a < b \<and> b < n}"
  by (fastforce simp: unorderedPairs_def)

lemma distinct_rows:
  assumes "distinct as"
  shows "distinct (concat (map (\<lambda>a. map (Pair a) (row a :: nat list)) (as :: nat list)))
           = (\<forall>a \<in> set as. distinct (row a))"
  using assms by (induction as) (auto simp: distinct_map inj_on_def)

lemma distinct_unorderedPairs: "distinct (unorderedPairs n)"
  by (simp add: unorderedPairs_def distinct_rows)

lemma map_update_same:
  assumes "f y = f (xs ! i)"
  shows "map f (xs[i := y]) = map f xs"
proof (cases "i < length xs")
  case True
  then show ?thesis
    using assms by (simp add: map_update list_update_same_conv)
next
  case False
  then show ?thesis by (simp add: list_update_beyond)
qed

lemma pairBody_explicit:
  assumes "a \<noteq> b"
  shows "pairBody this dt a b objs =
     (let force = computeForce this (objs ! a) (objs ! b)
      in objs[a := (objs ! a)\<lparr>rigidBody2d := (rigidBody2d (objs ! a))
                    \<lparr>velocity := vsub (velocity (rigidBody2d (objs ! a)))
                        (vdiv (smul dt force) (mass (rigidBody2d (objs ! a))))\<rparr>\<rparr>,
              b := (objs ! b)\<lparr>rigidBody2d := (rigidBody2d (objs ! b))
                    \<lparr>velocity := vadd (velocity (rigidBody2d (objs ! b)))
                        (vdiv (smul dt force) (mass (rigidBody2d (objs ! b))))\<rparr>\<rparr>])"
proof -
  have "vadd v (vdiv (smul dt (vneg f)) m) = vsub v (vdiv (smul dt f) m)" for v f m
    by (simp add: vadd_def vsub_def vdiv_def smul_def vneg_def)
  then show ?thesis
    using assms by (simp add: pairBody_def Let_def)
qed

lemma pairBody_transform2d: "map transform2d (pairBody this dt a b objs) = map transform2d objs"
  by (simp add: pairBody_def Let_def map_update_same)

lemma pairBody_mass:
  "map (\<lambda>obj. mass (rigidBody2d obj)) (pairBody this dt a b objs)
     = map (\<lambda>obj. mass (rigidBody2d obj)) objs"
  by (simp add: pairBody_def Let_def map_update_same)

lemma pairs_transform2d:
  "map transform2d (fold (\<lambda>(a, b). pairBody this dt a b) ps objs) = map transform2d objs"
  by (induction ps arbitrary: objs) (auto simp: pairBody_transform2d)

lemma pairs_mass:
  "map (\<lambda>obj. mass (rigidBody2d obj)) (fold (\<lambda>(a, b). pairBody this dt a b) ps objs)
     = map (\<lambda>obj. mass (rigidBody2d obj)) objs"
  by (induction ps arbitrary: objs) (auto simp: pairBody_mass)

lemma length_pairs [simp]:
  "length (fold (\<lambda>(a, b). pairBody this dt a b) ps objs) = length objs"
  by (induction ps arbitrary: objs) auto

lemma pairs_force_fixed:
  assumes "a < length objs" and "b < length objs"
  shows "computeForce this (fold (\<lambda>(a, b). pairBody this dt a b) ps objs ! a)
                           (fold (\<lambda>(a, b). pairBody this dt a b) ps objs ! b)
           = computeForce this (objs ! a) (objs ! b)"
proof -
  let ?cur = "fold (\<lambda>(a, b). pairBody this dt a b) ps objs"
  have t: "transform2d (?cur ! k) = transform2d (objs ! k)" if "k < length objs" for k
    using that pairs_transform2d [of this dt ps objs]
    by (metis length_pairs nth_map)
  have m: "mass (rigidBody2d (?cur ! k)) = mass (rigidBody2d (objs ! k))"
    if "k < length objs" for k
    using that pairs_mass [of this dt ps objs] nth_map [of k ?cur "\<lambda>obj. mass (rigidBody2d obj)"]
      nth_map [of k objs "\<lambda>obj. mass (rigidBody2d obj)"]
    by simp
  show ?thesis
    using assms by (intro computeForce_cong) (simp_all add: t m)
qed

lemma movePositions_nth:
  assumes "k < length objs"
  shows "movePositions dt objs ! k = (objs ! k)\<lparr>transform2d := (transform2d (objs ! k))
            \<lparr>translation := vadd (translation (transform2d (objs ! k)))
                                 (smul dt (velocity (rigidBody2d (objs ! k))))\<rparr>\<rparr>"
  using assms by (simp add: movePositions_def)

lemma update_loop_funpow:
  "update_loop this stepDelta substeps i objs
     = ((\<lambda>s. stepSimulation this s stepDelta) ^^ (unat substeps - unat i)) objs"
proof (induction this stepDelta substeps i objs rule: update_loop.induct)
  case (1 this stepDelta substeps i objs)
  show ?case
  proof (cases "i < substeps")
    case True
    have "unat i < unat substeps"
      using True by (simp add: word_less_nat_alt)
    moreover have "unat substeps < 2 ^ 32"
      using unsigned_less [of substeps] by simp
    ultimately have "unat i + unat (1 :: 32 word) < 2 ^ LENGTH(32)"
      by simp
    then have "unat (i + 1) = unat i + unat (1 :: 32 word)"
      by (simp only: unat_add_lem)
    then have "unat substeps - unat i = Suc (unat substeps - unat (i + 1))"
      using \<open>unat i < unat substeps\<close> by simp
    then have "((\<lambda>s. stepSimulation this s stepDelta) ^^ (unat substeps - unat i)) objs
        = ((\<lambda>s. stepSimulation this s stepDelta) ^^ (unat substeps - unat (i + 1)))
            (stepSimulation this objs stepDelta)"
      by (simp only: funpow_Suc_right o_apply)
    then show ?thesis
      using True "1.IH" [OF True]
      by (subst update_loop.simps) simp
  next
    case False
    then have "unat substeps - unat i = 0"
      by (simp add: word_less_nat_alt)
    then show ?thesis
      using False by (subst update_loop.simps) simp
  qed
qed

lemma update_funpow:
  "update this objs dt substeps
     = ((\<lambda>s. stepSimulation this s (dt / real (unat substeps))) ^^ unat substeps) objs"
  by (simp add: update_def update_loop_funpow)

lemma unorderedPairs_two: "unorderedPairs (Suc (Suc 0)) = [(0, Suc 0)]"
  by (simp add: unorderedPairs_def upt_rec)

lemma movePositions_rigidBody2d: "map rigidBody2d (movePositions dt objs) = map rigidBody2d objs"
  by (simp add: movePositions_def)

lemma stepSimulation_mass:
  "map (\<lambda>obj. mass (rigidBody2d obj)) (stepSimulation this objs dt)
     = map (\<lambda>obj. mass (rigidBody2d obj)) objs"
proof -
  have "map (\<lambda>obj. mass (rigidBody2d obj)) (movePositions dt s)
          = map (\<lambda>obj. mass (rigidBody2d obj)) s" for s
    by (simp add: movePositions_def)
  then show ?thesis
    by (simp add: stepSimulation_def loopA_pairs pairs_mass)
qed

lemma steps_mass:
  "map (\<lambda>obj. mass (rigidBody2d obj)) (((\<lambda>s. stepSimulation this s dt) ^^ k) objs)
     = map (\<lambda>obj. mass (rigidBody2d obj)) objs"
  by (induction k) (simp_all add: stepSimulation_mass)

lemma length_steps [simp]:
  "length (((\<lambda>s. stepSimulation this s dt) ^^ k) objs) = length objs"
  by (induction k) simp_all

lemma stepSimulation_two:
  "stepSimulation this [A, B] dt =
     movePositions dt
       [A\<lparr>rigidBody2d := (rigidBody2d A)
            \<lparr>velocity := vsub (velocity (rigidBody2d A))
                (vdiv (smul dt (computeForce this A B)) (mass (rigidBody2d A)))\<rparr>\<rparr>,
        B\<lparr>rigidBody2d := (rigidBody2d B)
            \<lparr>velocity := vadd (velocity (rigidBody2d B))
                (vdiv (smul dt (computeForce this A B)) (mass (rigidBody2d B)))\<rparr>\<rparr>]"
  by (simp add: stepSimulation_def loopA_pairs unorderedPairs_two pairBody_explicit Let_def)

lemma momentum_two:
  "momentum [A, B] = vadd (smul (mass (rigidBody2d A)) (velocity (rigidBody2d A)))
                          (smul (mass (rigidBody2d B)) (velocity (rigidBody2d B)))"
  by (simp add: momentum_def vadd_def)

lemma two_body_step:
  assumes "mass (rigidBody2d A) \<noteq> 0" and "mass (rigidBody2d B) \<noteq> 0"
  shows "vadd (smul (mass (rigidBody2d A))
                 (vsub (velocity (rigidBody2d (stepSimulation this [A, B] dt ! 0)))
                       (velocity (rigidBody2d A))))
              (smul (mass (rigidBody2d B))
                 (vsub (velocity (rigidBody2d (stepSimulation this [A, B] dt ! 1)))
                       (velocity (rigidBody2d B))))
           = Vec2 0 0"
    and "momentum (stepSimulation this [A, B] dt) = momentum [A, B]"
proof -
  let ?w = "smul dt (computeForce this A B)"
  have lose: "smul m (vsub (vsub v (vdiv w m)) v) = vneg w" if "m \<noteq> 0" for m v w
    using that by (simp add: smul_def vsub_def vdiv_def vneg_def)
  have gain: "smul m (vsub (vadd v (vdiv w m)) v) = w" if "m \<noteq> 0" for m v w
    using that by (simp add: smul_def vsub_def vadd_def vdiv_def)
  have cancel: "vadd (vneg w) w = Vec2 0 0" for w
    by (simp add: vadd_def vneg_def)
  show "vadd (smul (mass (rigidBody2d A))
                 (vsub (velocity (rigidBody2d (stepSimulation this [A, B] dt ! 0)))
                       (velocity (rigidBody2d A))))
              (smul (mass (rigidBody2d B))
                 (vsub (velocity (rigidBody2d (stepSimulation this [A, B] dt ! 1)))
                       (velocity (rigidBody2d B))))
           = Vec2 0 0"
    using assms by (simp add: stepSimulation_two movePositions_def lose gain cancel)
  have total: "vadd (smul m (vsub v (vdiv w m))) (smul m' (vadd v' (vdiv w m')))
                 = vadd (smul m v) (smul m' v')" if "m \<noteq> 0" and "m' \<noteq> 0" for m m' v v' w
    using that by (simp add: smul_def vsub_def vadd_def vdiv_def algebra_simps)
  show "momentum (stepSimulation this [A, B] dt) = momentum [A, B]"
    using assms by (simp add: stepSimulation_two movePositions_def momentum_two total)
qed

subsection \<open>The loop of \<open>update\<close> and the empty vector\<close>

lemma stepSimulation_Nil: "stepSimulation this [] dt = []"
  by (simp add: stepSimulation_def movePositions_def loopA_def)

lemma update_Nil: "update this [] dt substeps = []"
proof -
  have "((\<lambda>s. stepSimulation this s d) ^^ k) [] = []" for d k
    by (induction k) (simp_all add: stepSimulation_Nil)
  then show ?thesis
    by (simp add: update_funpow)
qed

subsection \<open>The scenario\<close>

text \<open>
  The scenario of the specification, evaluated: the force between the two bodies is
  \<open>1/4\<close> along the axis that separates them; after one step their velocities are
  opposite and they have moved towards each other. At the origin the two forces cancel.
\<close>

lemma computeForce_scenario:
  "computeForce unitGravity (bodyAt 1 0) (bodyAt (- 1) 0) = Vec2 (1 / 4) 0"
  by (simp add: computeForce_def unitGravity_def bodyAt_def vsub_def dot_def smul_def vdiv_def)

lemma stepSimulation_scenario:
  "stepSimulation unitGravity twoBodies 1 =
     [(bodyAt (3 / 4) 0)\<lparr>rigidBody2d := \<lparr>velocity = Vec2 (- (1 / 4)) 0, mass = 1\<rparr>\<rparr>,
      (bodyAt (- (3 / 4)) 0)\<lparr>rigidBody2d := \<lparr>velocity = Vec2 (1 / 4) 0, mass = 1\<rparr>\<rparr>]"
  unfolding twoBodies_def stepSimulation_two computeForce_scenario
  by (simp add: movePositions_def bodyAt_def vadd_def vsub_def smul_def vdiv_def)

lemma update_scenario:
  "update unitGravity twoBodies 1 1 =
     [(bodyAt (3 / 4) 0)\<lparr>rigidBody2d := \<lparr>velocity = Vec2 (- (1 / 4)) 0, mass = 1\<rparr>\<rparr>,
      (bodyAt (- (3 / 4)) 0)\<lparr>rigidBody2d := \<lparr>velocity = Vec2 (1 / 4) 0, mass = 1\<rparr>\<rparr>]"
  by (simp add: update_funpow stepSimulation_scenario)

lemma fieldDirection_scenario:
  "fieldDirection unitGravity twoBodies (bodyAt 0 0) = Vec2 0 0"
  by (simp add: fieldDirection_def twoBodies_def computeForce_def unitGravity_def bodyAt_def
        vsub_def dot_def smul_def vdiv_def vadd_def)

lemma hostHeap_at [simp]:
  "hostHeap 0 = twoBodies" "hostHeap (Suc 0) = [bodyAt 0 0, bodyAt 0 1]" "hostHeap 2 = []"
  by (simp_all add: hostHeap_def)

subsection \<open>The loops of the field update\<close>

lemma fieldDirection_fold_cong:
  assumes "map (\<lambda>obj. translation (transform2d obj)) objs'
             = map (\<lambda>obj. translation (transform2d obj)) objs"
    and "map (\<lambda>obj. mass (rigidBody2d obj)) objs' = map (\<lambda>obj. mass (rigidBody2d obj)) objs"
    and "translation (transform2d vf') = translation (transform2d vf)"
    and "mass (rigidBody2d vf') = mass (rigidBody2d vf)"
  shows "fieldDirection this objs' vf' = fieldDirection this objs vf"
proof -
  have len: "length objs' = length objs"
    using assms(1) by (rule map_eq_imp_length_eq)
  have "fold (\<lambda>obj direction. vadd direction (computeForce this obj vf')) objs' d
        = fold (\<lambda>obj direction. vadd direction (computeForce this obj vf)) objs d" for d
    using len assms(1,2)
  proof (induction objs' objs arbitrary: d rule: list_induct2)
    case Nil
    show ?case by simp
  next
    case (Cons x xs y ys)
    have "computeForce this x vf' = computeForce this y vf"
      using Cons.prems assms(3,4) by (intro computeForce_cong) simp_all
    then show ?case
      using Cons by simp
  qed
  then show ?thesis
    by (simp add: fieldDirection_def)
qed

lemma setFieldLine_keeps:
  "translation (transform2d (setFieldLine direction vf)) = translation (transform2d vf)"
  "rigidBody2d (setFieldLine direction vf) = rigidBody2d vf"
  "color (setFieldLine direction vf) = color vf"
  "model (setFieldLine direction vf) = model vf"
  "vy (scale (transform2d (setFieldLine direction vf))) = vy (scale (transform2d vf))"
  by (simp_all add: setFieldLine_def)

lemma update_prefix:
  "(map f (take k xs) @ drop k xs)[k := f (xs ! k)] = map f (take (Suc k) xs) @ drop (Suc k) xs"
proof (cases "k < length xs")
  case True
  then show ?thesis
    by (simp add: take_Suc_conv_app_nth list_update_append Cons_nth_drop_Suc [symmetric])
next
  case False
  then show ?thesis by (simp add: list_update_beyond)
qed

lemma fieldDirection_prefix:
  "fieldDirection this
     ((h(vectorField := map (\<lambda>vf. setFieldLine (d vf) vf) (take k (h vectorField))
                          @ drop k (h vectorField))) physicsObjs) vf
     = fieldDirection this (h physicsObjs) vf"
proof (cases "physicsObjs = vectorField")
  case True
  let ?L = "map (\<lambda>vf. setFieldLine (d vf) vf) (take k (h vectorField)) @ drop k (h vectorField)"
  have "map (\<lambda>obj. translation (transform2d obj)) ?L
          = map (\<lambda>obj. translation (transform2d obj))
              (take k (h vectorField) @ drop k (h vectorField))"
    by (simp add: setFieldLine_keeps comp_def del: append_take_drop_id)
  then have tr: "map (\<lambda>obj. translation (transform2d obj)) ?L
                   = map (\<lambda>obj. translation (transform2d obj)) (h vectorField)"
    by simp
  have "map (\<lambda>obj. mass (rigidBody2d obj)) ?L
          = map (\<lambda>obj. mass (rigidBody2d obj))
              (take k (h vectorField) @ drop k (h vectorField))"
    by (simp add: setFieldLine_keeps comp_def del: append_take_drop_id)
  then have ms: "map (\<lambda>obj. mass (rigidBody2d obj)) ?L
                   = map (\<lambda>obj. mass (rigidBody2d obj)) (h vectorField)"
    by simp
  have "fieldDirection this ?L vf = fieldDirection this (h vectorField) vf"
    using tr ms by (rule fieldDirection_fold_cong) simp_all
  then show ?thesis
    using True by simp
next
  case False
  then show ?thesis by simp
qed

lemma field_prefix:
  assumes "k \<le> length (h vectorField)"
  shows "fold (fieldBody this physicsObjs vectorField) [0..<k] h
     = h(vectorField :=
           map (\<lambda>vf. setFieldLine (fieldDirection this (h physicsObjs) vf) vf)
             (take k (h vectorField)) @ drop k (h vectorField))"
  using assms
proof (induction k)
  case 0
  show ?case by simp
next
  case (Suc k)
  define F where "F = (\<lambda>vf. setFieldLine (fieldDirection this (h physicsObjs) vf) vf)"
  define L where "L = map F (take k (h vectorField)) @ drop k (h vectorField)"
  have k: "k < length (h vectorField)"
    using Suc.prems by simp
  have nth: "L ! k = h vectorField ! k"
    using k by (simp add: L_def nth_append)
  have dir: "fieldDirection this ((h(vectorField := L)) physicsObjs) vf
               = fieldDirection this (h physicsObjs) vf" for vf
    unfolding L_def F_def by (rule fieldDirection_prefix)
  have IH: "fold (fieldBody this physicsObjs vectorField) [0..<k] h = h(vectorField := L)"
    using Suc.IH k by (simp only: L_def F_def less_imp_le)
  have "fold (fieldBody this physicsObjs vectorField) [0..<Suc k] h
          = fieldBody this physicsObjs vectorField k
              (fold (fieldBody this physicsObjs vectorField) [0..<k] h)"
    by simp
  also have "\<dots> = fieldBody this physicsObjs vectorField k (h(vectorField := L))"
    by (simp only: IH)
  also have "\<dots> = (h(vectorField := L))(vectorField :=
        L[k := setFieldLine (fieldDirection this ((h(vectorField := L)) physicsObjs) (L ! k))
                (L ! k)])"
    by (simp only: fieldBody_def Let_def fun_upd_same)
  also have "\<dots> = h(vectorField := L[k := F (h vectorField ! k)])"
    by (simp only: dir nth fun_upd_upd F_def)
  also have "L[k := F (h vectorField ! k)]
               = map F (take (Suc k) (h vectorField)) @ drop (Suc k) (h vectorField)"
    unfolding L_def by (rule update_prefix)
  finally show ?case
    by (simp only: F_def)
qed

lemma Vec2FieldSystem_update_map:
  "Vec2FieldSystem_update this physicsObjs vectorField h
     = h(vectorField :=
           map (\<lambda>vf. setFieldLine (fieldDirection this (h physicsObjs) vf) vf) (h vectorField))"
proof -
  have "length (h vectorField) \<le> length (h vectorField)"
    by simp
  then show ?thesis
    unfolding Vec2FieldSystem_update_def by (simp only: field_prefix take_all drop_all append_Nil2)
qed

lemma fold_vadd_sum:
  "vx (fold (\<lambda>obj direction. vadd direction (f obj)) objs d)
     = vx d + sum_list (map (\<lambda>obj. vx (f obj)) objs)
   \<and> vy (fold (\<lambda>obj direction. vadd direction (f obj)) objs d)
     = vy d + sum_list (map (\<lambda>obj. vy (f obj)) objs)"
  by (induction objs arbitrary: d) (simp_all add: vadd_def)

lemma fieldDirection_sum:
  "vx (fieldDirection this objs vf) = sum_list (map (\<lambda>obj. vx (computeForce this obj vf)) objs)"
  "vy (fieldDirection this objs vf) = sum_list (map (\<lambda>obj. vy (computeForce this obj vf)) objs)"
  using fold_vadd_sum [of "\<lambda>obj. computeForce this obj vf" objs "Vec2 0 0"]
  by (simp_all add: fieldDirection_def)

lemma scale_bounds:
  "0.005 \<le> 0.005 + 0.045 * clamp v 0 1" "0.005 + 0.045 * clamp v 0 1 \<le> (0.05 :: real)"
  by (simp_all add: clamp_def min_def max_def)

lemma computeForce_target_mass:
  "computeForce this B (P\<lparr>rigidBody2d := (rigidBody2d P)\<lparr>mass := k * mass (rigidBody2d P)\<rparr>\<rparr>)
     = smul k (computeForce this B P)"
  by (simp add: computeForce_def Let_def smul_def vdiv_def)

lemma fold_vadd_smul:
  assumes "\<And>obj. g obj = smul k (f obj)"
  shows "fold (\<lambda>obj direction. vadd direction (g obj)) objs (smul k d)
           = smul k (fold (\<lambda>obj direction. vadd direction (f obj)) objs d)"
proof (induction objs arbitrary: d)
  case Nil
  show ?case by simp
next
  case (Cons obj objs)
  have "vadd (smul k d) (smul k (f obj)) = smul k (vadd d (f obj))"
    by (simp add: vadd_def smul_def algebra_simps)
  then show ?case
    using Cons.IH [of "vadd d (f obj)"] by (simp add: assms)
qed

lemma field_scenario:
  "Vec2FieldSystem_update unitGravity 0 1 hostHeap 1 ! 0
     = (bodyAt 0 0)\<lparr>transform2d :=
          \<lparr>translation = Vec2 0 0, scale = Vec2 0.005 (5 / 100), rotation = 0\<rparr>\<rparr>"
  by (simp add: Vec2FieldSystem_update_map fieldDirection_scenario setFieldLine_def
        length_vec2_def dot_def clamp_def atan2_def)
     (simp add: bodyAt_def)

subsection \<open>Binary32 rounding\<close>

lemma binary32_minus: "binary32 (- x) = - binary32 x"
  by (simp add: binary32_def Let_def)

lemma binary32_zero [simp]: "binary32 0 = 0"
  by (simp add: binary32_def)

lemma floor_log2:
  assumes "0 < x" and "2 ^ 23 \<le> x * 2 ^ n" and "x * 2 ^ n < 2 ^ 24"
  shows "\<lfloor>log 2 x\<rfloor> = 23 - int n"
proof -
  have "log 2 (x * 2 ^ n) = log 2 x + real n"
    using assms(1) by (simp add: log_mult log_nat_power)
  moreover have "23 \<le> log 2 (x * 2 ^ n)"
    using assms by (simp add: le_log_iff powr_realpow)
  moreover have "log 2 (x * 2 ^ n) < 24"
    using assms by (simp add: log_less_iff powr_realpow)
  ultimately show ?thesis
    by (simp add: floor_eq_iff)
qed

lemma binary32_scaled:
  assumes "0 < x" and "2 ^ 23 \<le> x * 2 ^ n" and "x * 2 ^ n < 2 ^ 24" and "n \<le> 149"
  shows "binary32 x = of_int (round_even (x * 2 ^ n)) / 2 ^ n"
proof -
  have e: "max \<lfloor>log 2 \<bar>x\<bar>\<rfloor> (- 126) - 23 = - int n"
    using assms floor_log2 [OF assms(1-3)] by simp
  have p: "(2 :: real) powr (- real n) = 1 / 2 ^ n"
    by (simp add: powr_minus powr_realpow divide_inverse)
  have "binary32 x = sgn x * (of_int (round_even (\<bar>x\<bar> / 2 powr of_int (- int n)))
                        * 2 powr of_int (- int n))"
    using assms(1) unfolding binary32_def Let_def e by simp
  then show ?thesis
    using assms(1) by (simp add: p)
qed

text \<open>
  The roundings of the traces below: the two literals, the products that are not
  binary32 numbers (the second one is a tie, rounded to the even significand), and the
  values that are binary32 numbers already.
\<close>

lemma binary32_literals:
  "binary32 (1 / 10000000000) = 14411519 / 144115188075855872"
  "binary32 (81 / 100) = 13589545 / 16777216"
proof -
  show "binary32 (1 / 10000000000) = 14411519 / 144115188075855872"
    by (subst binary32_scaled [where n = 57]) (simp_all add: round_even_def)
  show "binary32 (81 / 100) = 13589545 / 16777216"
    by (subst binary32_scaled [where n = 24]) (simp_all add: round_even_def)
qed

lemma binary32_roundings:
  "binary32 (122305905 / 16777216) = 7644119 / 1048576"
  "binary32 (22932357 / 1048576) = 5733089 / 262144"
  "binary32 (40768635 / 16777216) = 10192159 / 4194304"
  "binary32 (91729431 / 4194304) = 11466179 / 524288"
  "binary32 (91729431 / 16777216) = 11466179 / 2097152"
proof -
  show "binary32 (122305905 / 16777216) = 7644119 / 1048576"
    by (subst binary32_scaled [where n = 21]) (simp_all add: round_even_def)
  show "binary32 (22932357 / 1048576) = 5733089 / 262144"
    by (subst binary32_scaled [where n = 19]) (simp_all add: round_even_def)
  show "binary32 (40768635 / 16777216) = 10192159 / 4194304"
    by (subst binary32_scaled [where n = 22]) (simp_all add: round_even_def)
  show "binary32 (91729431 / 4194304) = 11466179 / 524288"
    by (subst binary32_scaled [where n = 19]) (simp_all add: round_even_def)
  show "binary32 (91729431 / 16777216) = 11466179 / 2097152"
    by (subst binary32_scaled [where n = 21]) (simp_all add: round_even_def)
qed

lemma binary32_representable:
  "binary32 (5733089 / 1048576) = 5733089 / 1048576"
  "binary32 (5733089 / 524288) = 5733089 / 524288"
  "binary32 (11466179 / 2097152) = 11466179 / 2097152"
  "binary32 (11466179 / 1048576) = 11466179 / 1048576"
  "binary32 (13589545 / 16777216) = 13589545 / 16777216"
  "binary32 (10192159 / 16777216) = 10192159 / 16777216"
  "binary32 (10192159 / 8388608) = 10192159 / 8388608"
  "binary32 2 = 2"
  "binary32 4 = 4"
  "binary32 8 = 8"
  "binary32 9 = 9"
proof -
  show "binary32 (5733089 / 1048576) = 5733089 / 1048576"
    by (subst binary32_scaled [where n = 21]) (simp_all add: round_even_def)
  show "binary32 (5733089 / 524288) = 5733089 / 524288"
    by (subst binary32_scaled [where n = 20]) (simp_all add: round_even_def)
  show "binary32 (11466179 / 2097152) = 11466179 / 2097152"
    by (subst binary32_scaled [where n = 21]) (simp_all add: round_even_def)
  show "binary32 (11466179 / 1048576) = 11466179 / 1048576"
    by (subst binary32_scaled [where n = 20]) (simp_all add: round_even_def)
  show "binary32 (13589545 / 16777216) = 13589545 / 16777216"
    by (subst binary32_scaled [where n = 24]) (simp_all add: round_even_def)
  show "binary32 (10192159 / 16777216) = 10192159 / 16777216"
    by (subst binary32_scaled [where n = 24]) (simp_all add: round_even_def)
  show "binary32 (10192159 / 8388608) = 10192159 / 8388608"
    by (subst binary32_scaled [where n = 23]) (simp_all add: round_even_def)
  show "binary32 2 = 2"
    by (subst binary32_scaled [where n = 22]) (simp_all add: round_even_def)
  show "binary32 4 = 4"
    by (subst binary32_scaled [where n = 21]) (simp_all add: round_even_def)
  show "binary32 8 = 8"
    by (subst binary32_scaled [where n = 20]) (simp_all add: round_even_def)
  show "binary32 9 = 9"
    by (subst binary32_scaled [where n = 20]) (simp_all add: round_even_def)
qed




text \<open>
  Three calls traced through every rounding. In the notation of C, the results are
  \<open>5733089 / 2^20 = 0x1.5deb84p+2\<close>, \<open>11466179 / 2^21 = 0x1.5deb86p+2\<close> and
  \<open>10192159 / 2^24 = 0x1.370a3ep-1\<close>; the squared distance is 4 in all three.
\<close>

lemmas binary32_trace = computeForce_binary32_def gravity081_def bodyOfMass_def bodyAt_def Let_def
  vsub_binary32_def dot_binary32_def smul_binary32_def vdiv_binary32_def
  binary32_literals binary32_roundings binary32_representable binary32_minus

lemma computeForce_binary32_3_9:
  "computeForce_binary32 gravity081 (bodyOfMass 3 2 0) (bodyOfMass 9 0 0) = Vec2 (5733089 / 2 ^ 20) 0"
  by (simp add: binary32_trace)


lemma computeForce_binary32_3_1:
  "computeForce_binary32 gravity081 (bodyOfMass 3 2 0) (bodyOfMass 1 0 0) = Vec2 (10192159 / 2 ^ 24) 0"
  by (simp add: binary32_trace)

section \<open>The claims\<close>

text \<open>
  C1. Whenever \<open>\<bar>distanceSquared\<bar>\<close> is at least \<open>1e-10\<close>, \<open>computeForce\<close> returns
  \<open>force * offset / sqrt distanceSquared\<close> with
  \<open>force = strengthGravity * target.mass * source.mass / distanceSquared\<close>, where
  \<open>offset\<close> is the source's position minus the target's and \<open>distanceSquared\<close> its
  dot product with itself. Component by component this is the offset scaled by
  \<open>force / sqrt distanceSquared\<close>, and its length is \<open>\<bar>force\<bar>\<close>: the inverse-square
  force along \<open>offset\<close>.
\<close>

theorem computeForce_inverse_square:
  assumes "offset = vsub (translation (transform2d source)) (translation (transform2d target))"
    and "distanceSquared = dot offset offset"
    and "force = strengthGravity this * mass (rigidBody2d target) * mass (rigidBody2d source)
                   / distanceSquared"
    and "1 / 10 ^ 10 \<le> \<bar>distanceSquared\<bar>"
  shows "computeForce this source target = vdiv (smul force offset) (sqrt distanceSquared)
       \<and> vx (computeForce this source target) = force * vx offset / sqrt distanceSquared
       \<and> vy (computeForce this source target) = force * vy offset / sqrt distanceSquared
       \<and> length_vec2 (computeForce this source target) = \<bar>force\<bar>"
proof -
  have eq: "computeForce this source target = vdiv (smul force offset) (sqrt distanceSquared)"
    using assms by (simp add: computeForce_def Let_def)
  have "0 < distanceSquared"
    using assms(2,4) dot_self_nonneg [of offset] by simp
  then have "length_vec2 (computeForce this source target) = \<bar>force\<bar>"
    using assms(2) by (simp add: eq length_vec2_scaled)
  then show ?thesis
    by (simp add: eq vdiv_def smul_def)
qed

theorem computeForce_inverse_square_witness:
  "computeForce unitGravity (bodyAt 1 0) (bodyAt (- 1) 0) = vdiv (smul (1 / 4) (Vec2 2 0)) (sqrt 4)
   \<and> vx (computeForce unitGravity (bodyAt 1 0) (bodyAt (- 1) 0)) = 1 / 4 * vx (Vec2 2 0) / sqrt 4
   \<and> vy (computeForce unitGravity (bodyAt 1 0) (bodyAt (- 1) 0)) = 1 / 4 * vy (Vec2 2 0) / sqrt 4
   \<and> length_vec2 (computeForce unitGravity (bodyAt 1 0) (bodyAt (- 1) 0)) = \<bar>1 / 4\<bar>"
proof -
  have offset: "Vec2 2 0 = vsub (translation (transform2d (bodyAt 1 0)))
                              (translation (transform2d (bodyAt (- 1) 0)))"
    by (simp add: bodyAt_def vsub_def)
  have distanceSquared: "4 = dot (Vec2 2 0) (Vec2 2 0)"
    by (simp add: dot_def)
  have force: "1 / 4 = strengthGravity unitGravity * mass (rigidBody2d (bodyAt (- 1) 0))
                         * mass (rigidBody2d (bodyAt 1 0)) / 4"
    by (simp add: bodyAt_def unitGravity_def)
  have far: "1 / 10 ^ 10 \<le> \<bar>4 :: real\<bar>"
    by simp
  show ?thesis
    by (rule computeForce_inverse_square [OF offset distanceSquared force far])
qed

text \<open>
  C2. Whenever \<open>\<bar>distanceSquared\<bar>\<close> is below \<open>1e-10\<close>, \<open>computeForce\<close> returns
  the zero vector, whatever the masses of the two objects and the strength of gravity
  are, and the call executes no division.
\<close>

theorem computeForce_near_zero:
  assumes "offset = vsub (translation (transform2d source)) (translation (transform2d target))"
    and "\<bar>dot offset offset\<bar> < 1 / 10 ^ 10"
  shows "computeForce this source target = Vec2 0 0
       \<and> computeForce this (source\<lparr>rigidBody2d := (rigidBody2d source)\<lparr>mass := m\<rparr>\<rparr>)
                             (target\<lparr>rigidBody2d := (rigidBody2d target)\<lparr>mass := m'\<rparr>\<rparr>)
           = Vec2 0 0
       \<and> computeForce_divisors this source target = []"
  using assms by (simp add: computeForce_def computeForce_divisors_def Let_def)

theorem computeForce_near_zero_witness:
  "\<bar>dot (Vec2 0 0) (Vec2 0 0)\<bar> < 1 / 10 ^ 10
   \<and> computeForce unitGravity (bodyAt 1 0) (bodyAt 1 0) = Vec2 0 0
   \<and> computeForce unitGravity ((bodyAt 1 0)\<lparr>rigidBody2d := (rigidBody2d (bodyAt 1 0))\<lparr>mass := 7\<rparr>\<rparr>)
         ((bodyAt 1 0)\<lparr>rigidBody2d := (rigidBody2d (bodyAt 1 0))\<lparr>mass := 1000\<rparr>\<rparr>)
       = Vec2 0 0
   \<and> computeForce_divisors unitGravity (bodyAt 1 0) (bodyAt 1 0) = []"
proof -
  have offset: "Vec2 0 0 = vsub (translation (transform2d (bodyAt 1 0)))
                              (translation (transform2d (bodyAt 1 0)))"
    by (simp add: vsub_def)
  have near: "\<bar>dot (Vec2 0 0) (Vec2 0 0)\<bar> < 1 / 10 ^ 10"
    by (simp add: dot_def)
  show ?thesis
    using near computeForce_near_zero [OF offset near, of unitGravity 7 1000] by simp
qed

text \<open>
  C3. \<open>update\<close> runs the internal step \<open>substeps\<close> times in sequence, each with
  the step delta \<open>dt / substeps\<close>. An internal step is the pass over the pairs followed
  by the move of the positions. The pass applies the pair update to the pairs of
  \<open>unorderedPairs\<close> in order: each pair of indices \<open>a < b\<close> below the number of
  bodies occurs once, so no body meets itself and no pair occurs in both orders. The pair
  update subtracts \<open>stepDelta * force / mass\<close> from the velocity of the first body and
  adds it to the velocity of the second, with \<open>force = computeForce\<close> of the first and
  the second. After any sequence \<open>ps\<close> of pair updates the transforms, hence the
  positions, are those of the start of the step, and so is the force between any two
  bodies. The positions move by \<open>stepDelta\<close> times the velocity only after the pass.
\<close>

theorem update_steps_pairs:
  "update this objs dt substeps
     = ((\<lambda>s. stepSimulation this s (dt / real (unat substeps))) ^^ unat substeps) objs
   \<and> stepSimulation this objs stepDelta
     = movePositions stepDelta
         (fold (\<lambda>(a, b). pairBody this stepDelta a b) (unorderedPairs (length objs)) objs)
   \<and> distinct (unorderedPairs n)
   \<and> set (unorderedPairs n) = {(a, b). a < b \<and> b < n}
   \<and> ((a, b) \<in> set (unorderedPairs n) \<longrightarrow> a \<noteq> b \<and> (b, a) \<notin> set (unorderedPairs n))
   \<and> (a \<noteq> b \<longrightarrow>
        pairBody this stepDelta a b objs =
          (let force = computeForce this (objs ! a) (objs ! b)
           in objs[a := (objs ! a)\<lparr>rigidBody2d := (rigidBody2d (objs ! a))
                     \<lparr>velocity := vsub (velocity (rigidBody2d (objs ! a)))
                         (vdiv (smul stepDelta force) (mass (rigidBody2d (objs ! a))))\<rparr>\<rparr>,
                   b := (objs ! b)\<lparr>rigidBody2d := (rigidBody2d (objs ! b))
                     \<lparr>velocity := vadd (velocity (rigidBody2d (objs ! b)))
                         (vdiv (smul stepDelta force) (mass (rigidBody2d (objs ! b))))\<rparr>\<rparr>]))
   \<and> map transform2d (fold (\<lambda>(a, b). pairBody this stepDelta a b) ps objs)
       = map transform2d objs
   \<and> (a < length objs \<and> b < length objs \<longrightarrow>
        computeForce this (fold (\<lambda>(a, b). pairBody this stepDelta a b) ps objs ! a)
                          (fold (\<lambda>(a, b). pairBody this stepDelta a b) ps objs ! b)
          = computeForce this (objs ! a) (objs ! b))
   \<and> (k < length objs \<longrightarrow>
        movePositions stepDelta objs ! k =
          (objs ! k)\<lparr>transform2d := (transform2d (objs ! k))
            \<lparr>translation := vadd (translation (transform2d (objs ! k)))
                                 (smul stepDelta (velocity (rigidBody2d (objs ! k))))\<rparr>\<rparr>)"
proof -
  have "(a, b) \<in> set (unorderedPairs n) \<longrightarrow> a \<noteq> b \<and> (b, a) \<notin> set (unorderedPairs n)"
    by (auto simp: set_unorderedPairs)
  then show ?thesis
    using update_funpow [of this objs dt substeps] loopA_pairs [of this stepDelta objs]
      distinct_unorderedPairs [of n] set_unorderedPairs [of n]
      pairBody_explicit [of a b this stepDelta objs]
      pairs_transform2d [of this stepDelta ps objs]
      pairs_force_fixed [of a objs b this stepDelta ps]
      movePositions_nth [of k objs stepDelta]
    by (simp only: stepSimulation_def) blast
qed

theorem update_steps_pairs_witness:
  "(0, 1) \<in> set (unorderedPairs 2) \<and> (0 :: nat) \<noteq> 1
   \<and> 0 < length twoBodies \<and> 1 < length twoBodies
   \<and> update unitGravity twoBodies 1 1
       = ((\<lambda>s. stepSimulation unitGravity s (1 / real (unat (1 :: 32 word)))) ^^ unat (1 :: 32 word))
           twoBodies
   \<and> stepSimulation unitGravity twoBodies 1
       = movePositions 1
           (fold (\<lambda>(a, b). pairBody unitGravity 1 a b) (unorderedPairs (length twoBodies))
              twoBodies)
   \<and> distinct (unorderedPairs 2)
   \<and> set (unorderedPairs 2) = {(a, b). a < b \<and> b < 2}
   \<and> (1, 0) \<notin> set (unorderedPairs 2)
   \<and> pairBody unitGravity 1 0 1 twoBodies =
          (let force = computeForce unitGravity (twoBodies ! 0) (twoBodies ! 1)
           in twoBodies[0 := (twoBodies ! 0)\<lparr>rigidBody2d := (rigidBody2d (twoBodies ! 0))
                     \<lparr>velocity := vsub (velocity (rigidBody2d (twoBodies ! 0)))
                         (vdiv (smul 1 force) (mass (rigidBody2d (twoBodies ! 0))))\<rparr>\<rparr>,
                   1 := (twoBodies ! 1)\<lparr>rigidBody2d := (rigidBody2d (twoBodies ! 1))
                     \<lparr>velocity := vadd (velocity (rigidBody2d (twoBodies ! 1)))
                         (vdiv (smul 1 force) (mass (rigidBody2d (twoBodies ! 1))))\<rparr>\<rparr>])
   \<and> map transform2d (fold (\<lambda>(a, b). pairBody unitGravity 1 a b) [(0, 1)] twoBodies)
       = map transform2d twoBodies
   \<and> computeForce unitGravity (fold (\<lambda>(a, b). pairBody unitGravity 1 a b) [(0, 1)] twoBodies ! 0)
                          (fold (\<lambda>(a, b). pairBody unitGravity 1 a b) [(0, 1)] twoBodies ! 1)
          = computeForce unitGravity (twoBodies ! 0) (twoBodies ! 1)
   \<and> movePositions 1 twoBodies ! 0 =
          (twoBodies ! 0)\<lparr>transform2d := (transform2d (twoBodies ! 0))
            \<lparr>translation := vadd (translation (transform2d (twoBodies ! 0)))
                                 (smul 1 (velocity (rigidBody2d (twoBodies ! 0))))\<rparr>\<rparr>"
proof -
  have pair: "(0, 1) \<in> set (unorderedPairs 2)"
    by (simp add: set_unorderedPairs)
  have len: "0 < length twoBodies" "1 < length twoBodies"
    by (simp_all add: twoBodies_def)
  have ne: "(0 :: nat) \<noteq> 1"
    by simp
  show ?thesis
    using pair len ne
      update_steps_pairs [of unitGravity twoBodies 1 1 1 2 0 1 "[(0, 1)]" 0]
    by blast
qed




text \<open>
  C5. In a system of two bodies with positive masses, every internal step conserves
  the total momentum: the mass of the first body times the change of its velocity plus
  the mass of the second times the change of its velocity is the zero vector. The step
  is taken from the state \<open>before\<close> that \<open>k\<close> earlier steps have produced, for any
  \<open>k\<close> and any step delta, so it is each sub-step of \<open>update\<close>, and \<open>update\<close> as
  a whole leaves the total momentum as it was.
\<close>

theorem two_body_momentum:
  assumes "length objs = 2"
    and "0 < mass (rigidBody2d (objs ! 0))" and "0 < mass (rigidBody2d (objs ! 1))"
    and "before = ((\<lambda>s. stepSimulation this s stepDelta) ^^ k) objs"
    and "after = stepSimulation this before stepDelta"
  shows "vadd (smul (mass (rigidBody2d (before ! 0)))
                 (vsub (velocity (rigidBody2d (after ! 0))) (velocity (rigidBody2d (before ! 0)))))
              (smul (mass (rigidBody2d (before ! 1)))
                 (vsub (velocity (rigidBody2d (after ! 1))) (velocity (rigidBody2d (before ! 1)))))
           = Vec2 0 0
       \<and> momentum after = momentum before
       \<and> momentum (update this objs dt substeps) = momentum objs"
proof -
  have two: "\<exists>A B. s = [A, B]" if "length s = 2" for s :: "SveGameObject list"
    using that by (cases s; cases "tl s") auto
  have masses: "mass (rigidBody2d (((\<lambda>s. stepSimulation this s d) ^^ j) objs ! i))
                  = mass (rigidBody2d (objs ! i))" if "i < 2" for i j d
    using that assms(1) steps_mass [where this = this and dt = d and k = j and objs = objs]
      nth_map [of i "((\<lambda>s. stepSimulation this s d) ^^ j) objs" "\<lambda>obj. mass (rigidBody2d obj)"]
      nth_map [of i objs "\<lambda>obj. mass (rigidBody2d obj)"]
    by simp
  have step: "momentum (stepSimulation this s d) = momentum s
      \<and> vadd (smul (mass (rigidBody2d (s ! 0)))
                 (vsub (velocity (rigidBody2d (stepSimulation this s d ! 0)))
                       (velocity (rigidBody2d (s ! 0)))))
              (smul (mass (rigidBody2d (s ! 1)))
                 (vsub (velocity (rigidBody2d (stepSimulation this s d ! 1)))
                       (velocity (rigidBody2d (s ! 1)))))
           = Vec2 0 0"
    if len: "length s = 2"
      and nz: "mass (rigidBody2d (s ! 0)) \<noteq> 0" "mass (rigidBody2d (s ! 1)) \<noteq> 0"
    for s d
  proof -
    obtain A B where s: "s = [A, B]"
      using two [OF len] by blast
    show ?thesis
      using nz two_body_step [where A = A and B = B and this = this and dt = d] by (simp add: s)
  qed
  have steps: "momentum (((\<lambda>s. stepSimulation this s d) ^^ j) objs) = momentum objs" for j d
  proof (induction j)
    case 0
    show ?case by simp
  next
    case (Suc j)
    have "momentum (stepSimulation this (((\<lambda>s. stepSimulation this s d) ^^ j) objs) d)
            = momentum (((\<lambda>s. stepSimulation this s d) ^^ j) objs)"
      using assms(1-3) by (intro conjunct1 [OF step]) (simp_all add: masses)
    then show ?case
      using Suc.IH by simp
  qed
  have "length before = 2"
    using assms(1,4) by simp
  moreover have "mass (rigidBody2d (before ! 0)) \<noteq> 0" "mass (rigidBody2d (before ! 1)) \<noteq> 0"
    using assms(2,3) by (simp_all add: assms(4) masses)
  ultimately have "momentum after = momentum before
      \<and> vadd (smul (mass (rigidBody2d (before ! 0)))
                 (vsub (velocity (rigidBody2d (after ! 0))) (velocity (rigidBody2d (before ! 0)))))
              (smul (mass (rigidBody2d (before ! 1)))
                 (vsub (velocity (rigidBody2d (after ! 1))) (velocity (rigidBody2d (before ! 1)))))
           = Vec2 0 0"
    unfolding assms(5) by (rule step)
  moreover have "momentum (update this objs dt substeps) = momentum objs"
    by (simp add: update_funpow steps)
  ultimately show ?thesis
    by simp
qed

theorem two_body_momentum_witness:
  "length twoBodies = 2
   \<and> 0 < mass (rigidBody2d (twoBodies ! 0)) \<and> 0 < mass (rigidBody2d (twoBodies ! 1))
   \<and> vadd (smul (mass (rigidBody2d (twoBodies ! 0)))
              (vsub (velocity (rigidBody2d (stepSimulation unitGravity twoBodies 1 ! 0)))
                    (velocity (rigidBody2d (twoBodies ! 0)))))
           (smul (mass (rigidBody2d (twoBodies ! 1)))
              (vsub (velocity (rigidBody2d (stepSimulation unitGravity twoBodies 1 ! 1)))
                    (velocity (rigidBody2d (twoBodies ! 1)))))
       = Vec2 0 0
   \<and> momentum (stepSimulation unitGravity twoBodies 1) = momentum twoBodies
   \<and> momentum (update unitGravity twoBodies 1 1) = momentum twoBodies"
proof -
  have len: "length twoBodies = 2"
    by (simp add: twoBodies_def)
  have m0: "0 < mass (rigidBody2d (twoBodies ! 0))"
    by (simp add: twoBodies_def bodyAt_def)
  have m1: "0 < mass (rigidBody2d (twoBodies ! 1))"
    by (simp add: twoBodies_def bodyAt_def)
  have before: "twoBodies = ((\<lambda>s. stepSimulation unitGravity s 1) ^^ 0) twoBodies"
    by simp
  have after: "stepSimulation unitGravity twoBodies 1 = stepSimulation unitGravity twoBodies 1"
    by simp
  show ?thesis
    using len m0 m1 two_body_momentum [OF len m0 m1 before after, of 1 1] by blast
qed

text \<open>
  C6. For the sample point \<open>P\<close> at index \<open>k\<close> of the field vector,
  \<open>Vec2FieldSystem::update\<close> accumulates \<open>direction\<close>, whose components are the sums
  of the components of \<open>computeForce B P\<close> over the bodies \<open>B\<close>, and writes
  \<open>scale.x = 0.005 + 0.045 * clamp (ln (length direction + 1) / 3) 0 1\<close> and
  \<open>rotation = atan2 direction.y direction.x\<close>. The written \<open>scale.x\<close> lies between
  \<open>0.005\<close> and \<open>0.05\<close>.
\<close>

theorem field_line_scale_rotation:
  assumes "k < length (h vectorField)"
    and "P = h vectorField ! k"
    and "P' = Vec2FieldSystem_update this physicsObjs vectorField h vectorField ! k"
    and "direction = fieldDirection this (h physicsObjs) P"
  shows "vx direction = sum_list (map (\<lambda>B. vx (computeForce this B P)) (h physicsObjs))
       \<and> vy direction = sum_list (map (\<lambda>B. vy (computeForce this B P)) (h physicsObjs))
       \<and> vx (scale (transform2d P')) = 0.005 + 0.045 * clamp (ln (length_vec2 direction + 1) / 3) 0 1
       \<and> rotation (transform2d P') = atan2 (vy direction) (vx direction)
       \<and> 0.005 \<le> vx (scale (transform2d P')) \<and> vx (scale (transform2d P')) \<le> 0.05"
proof -
  have "P' = setFieldLine direction P"
    using assms by (simp add: Vec2FieldSystem_update_map)
  then show ?thesis
    using scale_bounds [of "ln (length_vec2 direction + 1) / 3"]
    by (simp add: setFieldLine_def assms(4) fieldDirection_sum)
qed

theorem field_line_scale_rotation_witness:
  "0 < length (hostHeap 1)
   \<and> vx (fieldDirection unitGravity (hostHeap 0) (hostHeap 1 ! 0))
       = sum_list (map (\<lambda>B. vx (computeForce unitGravity B (hostHeap 1 ! 0))) (hostHeap 0))
   \<and> vy (fieldDirection unitGravity (hostHeap 0) (hostHeap 1 ! 0))
       = sum_list (map (\<lambda>B. vy (computeForce unitGravity B (hostHeap 1 ! 0))) (hostHeap 0))
   \<and> vx (scale (transform2d (Vec2FieldSystem_update unitGravity 0 1 hostHeap 1 ! 0)))
       = 0.005 + 0.045 * clamp (ln (length_vec2 (fieldDirection unitGravity (hostHeap 0)
                                   (hostHeap 1 ! 0)) + 1) / 3) 0 1
   \<and> rotation (transform2d (Vec2FieldSystem_update unitGravity 0 1 hostHeap 1 ! 0))
       = atan2 (vy (fieldDirection unitGravity (hostHeap 0) (hostHeap 1 ! 0)))
               (vx (fieldDirection unitGravity (hostHeap 0) (hostHeap 1 ! 0)))
   \<and> 0.005 \<le> vx (scale (transform2d (Vec2FieldSystem_update unitGravity 0 1 hostHeap 1 ! 0)))
   \<and> vx (scale (transform2d (Vec2FieldSystem_update unitGravity 0 1 hostHeap 1 ! 0))) \<le> 0.05"
proof -
  have k: "0 < length (hostHeap 1)"
    by simp
  show ?thesis
    using k field_line_scale_rotation [where h = hostHeap and vectorField = 1 and k = 0
        and this = unitGravity and physicsObjs = 0, OF k refl refl refl] by blast
qed

text \<open>
  C7. In exact arithmetic \<open>computeForce\<close> is homogeneous in the mass of its target:
  multiplying the mass of \<open>P\<close> by \<open>k\<close> multiplies the force of any body \<open>B\<close> on
  \<open>P\<close> by \<open>k\<close>, in the branch that returns zero as in the other, and so it multiplies
  the direction that the field update accumulates for \<open>P\<close>. In binary32 arithmetic
  this is exact in the branch that returns zero.
\<close>

theorem target_mass_scaling:
  "computeForce this B (P\<lparr>rigidBody2d := (rigidBody2d P)\<lparr>mass := k * mass (rigidBody2d P)\<rparr>\<rparr>)
     = smul k (computeForce this B P)
   \<and> fieldDirection this objs
        (P\<lparr>rigidBody2d := (rigidBody2d P)\<lparr>mass := k * mass (rigidBody2d P)\<rparr>\<rparr>)
     = smul k (fieldDirection this objs P)
   \<and> (\<bar>dot_binary32 (vsub_binary32 (translation (transform2d B)) (translation (transform2d P)))
              (vsub_binary32 (translation (transform2d B)) (translation (transform2d P)))\<bar>
         < binary32 (1 / 10 ^ 10)
       \<longrightarrow> computeForce_binary32 this B
             (P\<lparr>rigidBody2d := (rigidBody2d P)\<lparr>mass := binary32 (k * mass (rigidBody2d P))\<rparr>\<rparr>)
           = smul_binary32 k (computeForce_binary32 this B P))"
proof -
  have "Vec2 0 0 = smul k (Vec2 0 0)"
    by (simp add: smul_def)
  then have "fieldDirection this objs
        (P\<lparr>rigidBody2d := (rigidBody2d P)\<lparr>mass := k * mass (rigidBody2d P)\<rparr>\<rparr>)
     = smul k (fieldDirection this objs P)"
    unfolding fieldDirection_def
    using fold_vadd_smul [of "\<lambda>obj. computeForce this obj
        (P\<lparr>rigidBody2d := (rigidBody2d P)\<lparr>mass := k * mass (rigidBody2d P)\<rparr>\<rparr>)" k
        "\<lambda>obj. computeForce this obj P" objs "Vec2 0 0"]
    by (simp add: computeForce_target_mass)
  moreover have "computeForce_binary32 this B
             (P\<lparr>rigidBody2d := (rigidBody2d P)\<lparr>mass := binary32 (k * mass (rigidBody2d P))\<rparr>\<rparr>)
           = smul_binary32 k (computeForce_binary32 this B P)"
    if "\<bar>dot_binary32 (vsub_binary32 (translation (transform2d B)) (translation (transform2d P)))
              (vsub_binary32 (translation (transform2d B)) (translation (transform2d P)))\<bar>
         < binary32 (1 / 10 ^ 10)"
    using that by (simp add: computeForce_binary32_def Let_def smul_binary32_def)
  ultimately show ?thesis
    by (simp add: computeForce_target_mass)
qed

theorem target_mass_scaling_witness:
  "\<bar>dot_binary32 (vsub_binary32 (translation (transform2d (bodyOfMass 3 2 0)))
                                (translation (transform2d (bodyOfMass 1 2 0))))
              (vsub_binary32 (translation (transform2d (bodyOfMass 3 2 0)))
                                (translation (transform2d (bodyOfMass 1 2 0))))\<bar>
         < binary32 (1 / 10 ^ 10)
   \<and> computeForce gravity081 (bodyOfMass 3 2 0)
        ((bodyOfMass 1 2 0)\<lparr>rigidBody2d := (rigidBody2d (bodyOfMass 1 2 0))
            \<lparr>mass := 9 * mass (rigidBody2d (bodyOfMass 1 2 0))\<rparr>\<rparr>)
     = smul 9 (computeForce gravity081 (bodyOfMass 3 2 0) (bodyOfMass 1 2 0))
   \<and> fieldDirection gravity081 [bodyOfMass 3 2 0]
        ((bodyOfMass 1 2 0)\<lparr>rigidBody2d := (rigidBody2d (bodyOfMass 1 2 0))
            \<lparr>mass := 9 * mass (rigidBody2d (bodyOfMass 1 2 0))\<rparr>\<rparr>)
     = smul 9 (fieldDirection gravity081 [bodyOfMass 3 2 0] (bodyOfMass 1 2 0))
   \<and> computeForce_binary32 gravity081 (bodyOfMass 3 2 0)
        ((bodyOfMass 1 2 0)\<lparr>rigidBody2d := (rigidBody2d (bodyOfMass 1 2 0))
            \<lparr>mass := binary32 (9 * mass (rigidBody2d (bodyOfMass 1 2 0)))\<rparr>\<rparr>)
     = smul_binary32 9 (computeForce_binary32 gravity081 (bodyOfMass 3 2 0) (bodyOfMass 1 2 0))"
proof -
  have near: "\<bar>dot_binary32 (vsub_binary32 (translation (transform2d (bodyOfMass 3 2 0)))
                                (translation (transform2d (bodyOfMass 1 2 0))))
              (vsub_binary32 (translation (transform2d (bodyOfMass 3 2 0)))
                                (translation (transform2d (bodyOfMass 1 2 0))))\<bar>
         < binary32 (1 / 10 ^ 10)"
    by (simp add: bodyOfMass_def bodyAt_def vsub_binary32_def dot_binary32_def binary32_literals)
  show ?thesis
    using near
      target_mass_scaling [where this = gravity081 and B = "bodyOfMass 3 2 0"
        and P = "bodyOfMass 1 2 0" and k = 9 and objs = "[bodyOfMass 3 2 0]"]
    by blast
qed

text \<open>
  With the strength \<open>0.81f\<close>, a body of mass 3 at \<open>(2, 0)\<close> and a sample point of
  mass 1 at the origin, the factor \<open>k = 9\<close> gives the mass 9 and a force with
  \<open>x = 5733089 / 2^20\<close>, while 9 times the force on the mass 1, rounded or not, is
  larger.
\<close>

theorem target_mass_scaling_counterexample:
  "computeForce_binary32 gravity081 (bodyOfMass 3 2 0)
     ((bodyOfMass 1 0 0)\<lparr>rigidBody2d := (rigidBody2d (bodyOfMass 1 0 0))
         \<lparr>mass := binary32 (9 * mass (rigidBody2d (bodyOfMass 1 0 0)))\<rparr>\<rparr>)
     = Vec2 (5733089 / 2 ^ 20) 0
   \<and> smul_binary32 9 (computeForce_binary32 gravity081 (bodyOfMass 3 2 0) (bodyOfMass 1 0 0))
     = Vec2 (11466179 / 2 ^ 21) 0
   \<and> computeForce_binary32 gravity081 (bodyOfMass 3 2 0)
     ((bodyOfMass 1 0 0)\<lparr>rigidBody2d := (rigidBody2d (bodyOfMass 1 0 0))
         \<lparr>mass := binary32 (9 * mass (rigidBody2d (bodyOfMass 1 0 0)))\<rparr>\<rparr>)
     \<noteq> smul_binary32 9 (computeForce_binary32 gravity081 (bodyOfMass 3 2 0) (bodyOfMass 1 0 0))
   \<and> computeForce_binary32 gravity081 (bodyOfMass 3 2 0)
     ((bodyOfMass 1 0 0)\<lparr>rigidBody2d := (rigidBody2d (bodyOfMass 1 0 0))
         \<lparr>mass := binary32 (9 * mass (rigidBody2d (bodyOfMass 1 0 0)))\<rparr>\<rparr>)
     \<noteq> smul 9 (computeForce_binary32 gravity081 (bodyOfMass 3 2 0) (bodyOfMass 1 0 0))"
proof -
  have nine: "(bodyOfMass 1 0 0)\<lparr>rigidBody2d := (rigidBody2d (bodyOfMass 1 0 0))
         \<lparr>mass := binary32 (9 * mass (rigidBody2d (bodyOfMass 1 0 0)))\<rparr>\<rparr> = bodyOfMass 9 0 0"
    by (simp add: bodyOfMass_def bodyAt_def binary32_representable)
  show ?thesis
    unfolding nine computeForce_binary32_3_9 computeForce_binary32_3_1
    by (simp add: smul_binary32_def smul_def binary32_roundings)
qed

text \<open>
  C8. With an empty vector of bodies, \<open>GravityPhysicsSystem::update\<close> changes nothing,
  for any \<open>dt\<close> and \<open>substeps\<close>, and \<open>Vec2FieldSystem::update\<close> sets the
  \<open>scale.x\<close> of every sample point to \<open>0.005\<close> and its rotation to \<open>atan2 0 0\<close>,
  which is \<open>0\<close>.
\<close>

theorem empty_bodies:
  assumes "h physicsObjs = []"
  shows "update this (h physicsObjs) dt substeps = []
       \<and> GravityPhysicsSystem_update this physicsObjs dt substeps h = h
       \<and> (k < length (h vectorField) \<longrightarrow>
            vx (scale (transform2d
                  (Vec2FieldSystem_update this physicsObjs vectorField h vectorField ! k))) = 0.005
          \<and> rotation (transform2d
                  (Vec2FieldSystem_update this physicsObjs vectorField h vectorField ! k))
              = atan2 0 0)
       \<and> atan2 0 0 = 0"
proof -
  have "fieldDirection this [] vf = Vec2 0 0" for vf
    by (simp add: fieldDirection_def)
  then have "setFieldLine (fieldDirection this (h physicsObjs) vf) vf
      = vf\<lparr>transform2d := (transform2d vf)
            \<lparr>scale := Vec2 0.005 (vy (scale (transform2d vf))), rotation := atan2 0 0\<rparr>\<rparr>" for vf
    by (simp add: assms setFieldLine_def length_vec2_def dot_def clamp_def)
  then have "k < length (h vectorField) \<longrightarrow>
            vx (scale (transform2d
                  (Vec2FieldSystem_update this physicsObjs vectorField h vectorField ! k))) = 0.005
          \<and> rotation (transform2d
                  (Vec2FieldSystem_update this physicsObjs vectorField h vectorField ! k))
              = atan2 0 0"
    by (simp add: Vec2FieldSystem_update_map)
  moreover have "GravityPhysicsSystem_update this physicsObjs dt substeps h = h"
    using assms by (simp add: GravityPhysicsSystem_update_def update_Nil fun_upd_idem_iff)
  moreover have "atan2 0 0 = 0"
    by (simp add: atan2_def)
  ultimately show ?thesis
    using assms by (simp add: update_Nil)
qed

theorem empty_bodies_witness:
  "hostHeap 2 = [] \<and> 0 < length (hostHeap 1)
   \<and> update unitGravity (hostHeap 2) 1 5 = []
   \<and> GravityPhysicsSystem_update unitGravity 2 1 5 hostHeap = hostHeap
   \<and> vx (scale (transform2d (Vec2FieldSystem_update unitGravity 2 1 hostHeap 1 ! 0))) = 0.005
   \<and> rotation (transform2d (Vec2FieldSystem_update unitGravity 2 1 hostHeap 1 ! 0)) = atan2 0 0
   \<and> atan2 0 0 = 0"
proof -
  have e: "hostHeap 2 = []"
    by simp
  have k: "0 < length (hostHeap 1)"
    by simp
  show ?thesis
    using e k empty_bodies [where h = hostHeap and physicsObjs = 2 and this = unitGravity and dt = 1
        and substeps = 5 and k = 0 and vectorField = 1, OF e] by blast
qed

text \<open>
  C9. \<open>GravityPhysicsSystem::update\<close> leaves every vector but its own as it is, and
  its result does not depend on any other vector. \<open>Vec2FieldSystem::update\<close> leaves
  every vector but the field vector as it is, so the bodies, held in another vector, keep
  all their fields. In every vector, the field vector included, it keeps the number of
  objects and the translation, \<open>scale.y\<close>, rigid body (velocity and mass), color and
  model of each object: only \<open>scale.x\<close> and \<open>rotation\<close> of the sample points are
  written.
\<close>

theorem frame_conditions:
  "(r \<noteq> objs \<longrightarrow>
      GravityPhysicsSystem_update this objs dt substeps h r = h r
    \<and> GravityPhysicsSystem_update this objs dt substeps (h(r := other)) objs
        = GravityPhysicsSystem_update this objs dt substeps h objs)
   \<and> (r \<noteq> vectorField \<longrightarrow> Vec2FieldSystem_update this physicsObjs vectorField h r = h r)
   \<and> (physicsObjs \<noteq> vectorField \<longrightarrow>
        Vec2FieldSystem_update this physicsObjs vectorField h physicsObjs = h physicsObjs)
   \<and> length (Vec2FieldSystem_update this physicsObjs vectorField h r) = length (h r)
   \<and> map (\<lambda>obj. translation (transform2d obj))
         (Vec2FieldSystem_update this physicsObjs vectorField h r)
       = map (\<lambda>obj. translation (transform2d obj)) (h r)
   \<and> map (\<lambda>obj. vy (scale (transform2d obj)))
         (Vec2FieldSystem_update this physicsObjs vectorField h r)
       = map (\<lambda>obj. vy (scale (transform2d obj))) (h r)
   \<and> map rigidBody2d (Vec2FieldSystem_update this physicsObjs vectorField h r)
       = map rigidBody2d (h r)
   \<and> map color (Vec2FieldSystem_update this physicsObjs vectorField h r) = map color (h r)
   \<and> map model (Vec2FieldSystem_update this physicsObjs vectorField h r) = map model (h r)"
  by (simp add: GravityPhysicsSystem_update_def Vec2FieldSystem_update_map setFieldLine_keeps
        comp_def)

theorem frame_conditions_witness:
  "(1 :: nat) \<noteq> 0 \<and> (0 :: nat) \<noteq> 1
   \<and> GravityPhysicsSystem_update unitGravity 0 1 5 hostHeap 1 = hostHeap 1
   \<and> GravityPhysicsSystem_update unitGravity 0 1 5 (hostHeap(1 := [])) 0
        = GravityPhysicsSystem_update unitGravity 0 1 5 hostHeap 0
   \<and> Vec2FieldSystem_update unitGravity 0 1 hostHeap 0 = hostHeap 0
   \<and> length (Vec2FieldSystem_update unitGravity 0 1 hostHeap 1) = length (hostHeap 1)
   \<and> map (\<lambda>obj. translation (transform2d obj)) (Vec2FieldSystem_update unitGravity 0 1 hostHeap 1)
       = map (\<lambda>obj. translation (transform2d obj)) (hostHeap 1)
   \<and> map (\<lambda>obj. vy (scale (transform2d obj))) (Vec2FieldSystem_update unitGravity 0 1 hostHeap 1)
       = map (\<lambda>obj. vy (scale (transform2d obj))) (hostHeap 1)
   \<and> map rigidBody2d (Vec2FieldSystem_update unitGravity 0 1 hostHeap 1)
       = map rigidBody2d (hostHeap 1)
   \<and> map color (Vec2FieldSystem_update unitGravity 0 1 hostHeap 1) = map color (hostHeap 1)
   \<and> map model (Vec2FieldSystem_update unitGravity 0 1 hostHeap 1) = map model (hostHeap 1)"
proof -
  have ne: "(1 :: nat) \<noteq> 0" "(0 :: nat) \<noteq> 1"
    by simp_all
  show ?thesis
    using ne
      frame_conditions [of 1 0 unitGravity 1 5 hostHeap "[]" 1 0]
      frame_conditions [of 0 0 unitGravity 1 5 hostHeap "[]" 1 0]
    by blast
qed

text \<open>
  C10. With \<open>substeps = 0\<close> the loop of \<open>update\<close> runs no step, whatever the step
  delta is: \<open>update\<close> returns the bodies as they are and the heap is unchanged.
\<close>

theorem update_zero_substeps:
  "update_loop this stepDelta 0 0 objs = objs
   \<and> update this objs dt 0 = objs
   \<and> GravityPhysicsSystem_update this p dt 0 h = h"
proof -
  have "update_loop this sd 0 0 objs' = objs'" for sd objs'
    by (subst update_loop.simps) simp
  then show ?thesis
    by (simp add: update_def GravityPhysicsSystem_update_def)
qed

end
